theory Spec2Isabelle
  imports Main "HOL-Library.AList"
begin

text \<open>
  Multi-workspace credential routing of the ClickUp MCP server: the configuration
  loader (config.ts), the registry of per-workspace services (services/shared.ts), the
  dispatch helper of the tool handlers (tools/workspace-helper.ts), the response
  envelope (utils/sponsor-service.ts) and the tool visibility filter. Functions that
  throw return a sum, \<open>Inl\<close> the thrown error; functions that change the registry take
  its state and return the new one.
\<close>

section \<open>JavaScript values used by the configuration code\<close>

text \<open>
  A value of TypeScript type \<open>string | undefined\<close> is a \<open>string option\<close>, \<open>None\<close>
  being \<open>undefined\<close>. Such a value is truthy when it is a non-empty string; this is the
  test behind \<open>if (x)\<close>, \<open>!x\<close> and \<open>a || b\<close>.
\<close>

definition truthy :: "string option \<Rightarrow> bool" where
  "truthy v = (case v of None \<Rightarrow> False | Some s \<Rightarrow> s \<noteq> [])"

text \<open>\<open>a || b\<close> on two possibly undefined strings.\<close>

definition js_or :: "string option \<Rightarrow> string option \<Rightarrow> string option" where
  "js_or a b = (if truthy a then a else b)"

text \<open>\<open>a || d\<close> where the right operand \<open>d\<close> is a string.\<close>

definition js_or_str :: "string option \<Rightarrow> string \<Rightarrow> string" where
  "js_or_str a d = (case a of None \<Rightarrow> d | Some s \<Rightarrow> if s = [] then d else s)"

text \<open>\<open>Array.prototype.join\<close> on an array of strings.\<close>

fun join :: "string \<Rightarrow> string list \<Rightarrow> string" where
  "join sep [] = []"
| "join sep [x] = x"
| "join sep (x # y # ys) = x @ sep @ join sep (y # ys)"

text \<open>
  Thrown values. Every \<open>throw\<close> of the modelled modules is \<open>new Error(message)\<close>;
  \<open>JSON.parse\<close> throws a \<open>SyntaxError\<close>.
\<close>

datatype js_error = Error string | SyntaxError string

fun message :: "js_error \<Rightarrow> string" where
  "message (Error m) = m"
| "message (SyntaxError m) = m"

text \<open>
  Property lookup \<open>obj[k]\<close> on an object created by \<open>JSON.parse\<close>. The object is the
  list of its own properties in \<open>Object.keys\<close> order. Its prototype is
  \<open>Object.prototype\<close>, so a key that is not an own property but names a member of
  \<open>Object.prototype\<close> reads that member (a function, or the prototype object for
  \<open>__proto__\<close>), which is truthy and has none of the properties of a workspace entry.
  Every other key reads \<open>undefined\<close>.
\<close>

definition Object_prototype_keys :: "string list" where
  "Object_prototype_keys =
     [''constructor'', ''hasOwnProperty'', ''isPrototypeOf'', ''propertyIsEnumerable'',
      ''toLocaleString'', ''toString'', ''valueOf'', ''__proto__'',
      ''__defineGetter__'', ''__defineSetter__'', ''__lookupGetter__'', ''__lookupSetter__'']"

datatype 'a property = OwnProperty 'a | InheritedProperty | NoProperty

definition get_property :: "(string \<times> 'a) list \<Rightarrow> string \<Rightarrow> 'a property" where
  "get_property obj k =
     (case map_of obj k of
        Some v \<Rightarrow> OwnProperty v
      | None \<Rightarrow> if k \<in> set Object_prototype_keys then InheritedProperty else NoProperty)"

section \<open>Configuration (config.ts)\<close>

text \<open>
  \<open>interface WorkspaceConfig { token: string; teamId: string; description?: string }\<close>.
  The entries come out of \<open>JSON.parse\<close> unchecked, so each property may be missing
  (\<open>None\<close>); the loader tests \<open>token\<close> and \<open>teamId\<close> for truthiness.
\<close>

record WorkspaceConfig =
  token :: "string option"
  teamId :: "string option"
  description :: "string option"

text \<open>
  The value \<open>JSON.parse(workspacesJson)\<close> returns, read at the declared shape
  \<open>{ default: string, workspaces: Record<string, WorkspaceConfig> }\<close> with either
  property possibly missing.
\<close>

record ParsedBlob =
  blob_default :: "string option"
  blob_workspaces :: "(string \<times> WorkspaceConfig) list option"

text \<open>\<open>interface ClickUpWorkspacesConfig\<close>: the blob once \<open>parseWorkspaces\<close> accepted it.\<close>

record ClickUpWorkspacesConfig =
  default_workspace :: string
  workspaces :: "(string \<times> WorkspaceConfig) list"

text \<open>
  The inputs of the module: the \<open>--env KEY=value\<close> command line arguments, already
  collected in \<open>envArgs\<close>, and the process environment.
\<close>

record environment =
  arg_clickupApiKey :: "string option"
  env_CLICKUP_API_KEY :: "string option"
  arg_clickupTeamId :: "string option"
  env_CLICKUP_TEAM_ID :: "string option"
  arg_clickupWorkspaces :: "string option"
  env_CLICKUP_WORKSPACES :: "string option"
  arg_disabledTools :: "string option"
  env_DISABLED_TOOLS :: "string option"
  env_DISABLED_COMMANDS :: "string option"
  arg_enabledTools :: "string option"
  env_ENABLED_TOOLS :: "string option"

text \<open>The fields of \<open>interface Config\<close> that credential routing and tool filtering read.\<close>

record Config =
  clickupApiKey :: string
  clickupTeamId :: string
  clickupWorkspaces :: "ClickUpWorkspacesConfig option"
  disabledTools :: "string list"
  enabledTools :: "string list"

text \<open>The loop over \<open>Object.entries(parsed.workspaces)\<close>: the first bad entry throws.\<close>

fun check_workspaces :: "(string \<times> WorkspaceConfig) list \<Rightarrow> js_error option" where
  "check_workspaces [] = None"
| "check_workspaces ((key, ws) # rest) =
     (if \<not> truthy (token ws) \<or> \<not> truthy (teamId ws)
      then Some (Error (''Invalid workspace \"'' @ key @
                        ''\": must have \"token\" and \"teamId\" properties''))
      else check_workspaces rest)"

text \<open>
  The body of the \<open>try\<close> block of \<open>parseWorkspaces\<close>. \<open>JSON.parse\<close> is the runtime's:
  it is a parameter, \<open>Inl\<close> when it throws.
\<close>

definition parseWorkspaces_try ::
  "(string \<Rightarrow> js_error + ParsedBlob) \<Rightarrow> string \<Rightarrow> js_error + ClickUpWorkspacesConfig" where
  "parseWorkspaces_try JSON_parse workspacesJson =
     (case JSON_parse workspacesJson of
        Inl e \<Rightarrow> Inl e
      | Inr parsed \<Rightarrow>
          (case (blob_default parsed, blob_workspaces parsed) of
             (Some d, Some wss) \<Rightarrow>
               if d = [] then
                 Inl (Error ''Invalid CLICKUP_WORKSPACES format: must have \"default\" and \"workspaces\" properties'')
               else
                 (case check_workspaces wss of
                    Some e \<Rightarrow> Inl e
                  | None \<Rightarrow> Inr \<lparr>default_workspace = d, workspaces = wss\<rparr>)
           | _ \<Rightarrow>
               Inl (Error ''Invalid CLICKUP_WORKSPACES format: must have \"default\" and \"workspaces\" properties'')))"

definition parseWorkspaces ::
  "(string \<Rightarrow> js_error + ParsedBlob) \<Rightarrow> environment
     \<Rightarrow> js_error + ClickUpWorkspacesConfig option" where
  "parseWorkspaces JSON_parse env =
     (case js_or (arg_clickupWorkspaces env) (env_CLICKUP_WORKSPACES env) of
        None \<Rightarrow> Inr None
      | Some workspacesJson \<Rightarrow>
          if workspacesJson = [] then Inr None
          else
            (case parseWorkspaces_try JSON_parse workspacesJson of
               Inl e \<Rightarrow> Inl (Error (''Failed to parse CLICKUP_WORKSPACES: '' @ message e))
             | Inr w \<Rightarrow> Inr (Some w)))"

text \<open>
  The tool lists: \<open>value?.split(',').map(cmd => cmd.trim()).filter(cmd => cmd !== '') || []\<close>.
  \<open>trim\<close> is modelled on the ASCII white space characters.
\<close>

fun split_on :: "char \<Rightarrow> string \<Rightarrow> string list" where
  "split_on c [] = [[]]"
| "split_on c (x # xs) =
     (if x = c then [] # split_on c xs
      else (case split_on c xs of [] \<Rightarrow> [[x]] | w # ws \<Rightarrow> (x # w) # ws))"

definition is_space :: "char \<Rightarrow> bool" where
  "is_space c \<longleftrightarrow> c \<in> set [CHR 0x09, CHR 0x0A, CHR 0x0B, CHR 0x0C, CHR 0x0D, CHR 0x20]"

definition trim :: "string \<Rightarrow> string" where
  "trim s = rev (dropWhile is_space (rev (dropWhile is_space s)))"

definition parseToolList :: "string option \<Rightarrow> string list" where
  "parseToolList v =
     (case v of
        None \<Rightarrow> []
      | Some s \<Rightarrow> filter (\<lambda>cmd. cmd \<noteq> []) (map trim (split_on CHR '','' s)))"

text \<open>\<open>x || ''\<close>.\<close>

definition or_empty :: "string option \<Rightarrow> string" where
  "or_empty v = (case v of None \<Rightarrow> [] | Some s \<Rightarrow> s)"

text \<open>The object literal \<open>configuration\<close>; it throws when \<open>parseWorkspaces()\<close> does.\<close>

definition configuration ::
  "(string \<Rightarrow> js_error + ParsedBlob) \<Rightarrow> environment \<Rightarrow> js_error + Config" where
  "configuration JSON_parse env =
     (case parseWorkspaces JSON_parse env of
        Inl e \<Rightarrow> Inl e
      | Inr cw \<Rightarrow>
          Inr \<lparr>clickupApiKey = or_empty (js_or (arg_clickupApiKey env) (env_CLICKUP_API_KEY env)),
               clickupTeamId = or_empty (js_or (arg_clickupTeamId env) (env_CLICKUP_TEAM_ID env)),
               clickupWorkspaces = cw,
               disabledTools =
                 parseToolList (js_or (js_or (arg_disabledTools env) (env_DISABLED_TOOLS env))
                                      (env_DISABLED_COMMANDS env)),
               enabledTools = parseToolList (js_or (arg_enabledTools env) (env_ENABLED_TOOLS env))\<rparr>)"

text \<open>
  The validation that follows the literal: \<open>Some\<close> is the error it throws. In
  multi-workspace mode the test is \<open>!workspaces[defaultWorkspace]\<close>; in single workspace
  mode the two legacy fields must be non-empty.
\<close>

definition validate :: "Config \<Rightarrow> js_error option" where
  "validate cfg =
     (case clickupWorkspaces cfg of
        Some w \<Rightarrow>
          (case get_property (workspaces w) (default_workspace w) of
             NoProperty \<Rightarrow>
               Some (Error (''Default workspace \"'' @ default_workspace w @
                            ''\" not found in workspaces configuration''))
           | _ \<Rightarrow> None)
      | None \<Rightarrow>
          (let missingEnvVars =
                 (if clickupApiKey cfg = [] then [''clickupApiKey''] else []) @
                 (if clickupTeamId cfg = [] then [''clickupTeamId''] else [])
           in if missingEnvVars \<noteq> [] then
                Some (Error (''Missing required environment variables: '' @
                  join '', '' missingEnvVars @ ''. '' @
                  ''Either provide CLICKUP_API_KEY and CLICKUP_TEAM_ID, or CLICKUP_WORKSPACES for multi-workspace support.''))
              else None))"

text \<open>
  Loading the module: the configuration literal, then the validation. \<open>Inl\<close> is the error
  that aborts the import of the module, \<open>Inr\<close> the exported configuration.
\<close>

definition loadConfig ::
  "(string \<Rightarrow> js_error + ParsedBlob) \<Rightarrow> environment \<Rightarrow> js_error + Config" where
  "loadConfig JSON_parse env =
     (case configuration JSON_parse env of
        Inl e \<Rightarrow> Inl e
      | Inr cfg \<Rightarrow> (case validate cfg of Some e \<Rightarrow> Inl e | None \<Rightarrow> Inr cfg))"

definition getWorkspaceConfig :: "Config \<Rightarrow> string option \<Rightarrow> js_error + WorkspaceConfig" where
  "getWorkspaceConfig cfg workspaceId =
     (case clickupWorkspaces cfg of
        Some w \<Rightarrow>
          (let wsId = js_or_str workspaceId (default_workspace w) in
           case get_property (workspaces w) wsId of
             NoProperty \<Rightarrow>
               Inl (Error (''Workspace \"'' @ wsId @ ''\" not found. Available workspaces: '' @
                           join '', '' (map fst (workspaces w))))
           | OwnProperty workspace \<Rightarrow> Inr workspace
           | InheritedProperty \<Rightarrow> Inr \<lparr>token = None, teamId = None, description = None\<rparr>)
      | None \<Rightarrow>
          if truthy workspaceId \<and> workspaceId \<noteq> Some ''default'' then
            Inl (Error (''Multiple workspaces not configured. Only default workspace is available. '' @
                        ''Set CLICKUP_WORKSPACES environment variable to enable multi-workspace support.''))
          else
            Inr \<lparr>token = Some (clickupApiKey cfg), teamId = Some (clickupTeamId cfg),
                 description = Some ''Default workspace''\<rparr>)"

definition getAvailableWorkspaces :: "Config \<Rightarrow> string list" where
  "getAvailableWorkspaces cfg =
     (case clickupWorkspaces cfg of
        Some w \<Rightarrow> map fst (workspaces w)
      | None \<Rightarrow> [''default''])"

definition getDefaultWorkspace :: "Config \<Rightarrow> string" where
  "getDefaultWorkspace cfg =
     (case clickupWorkspaces cfg of
        Some w \<Rightarrow> default_workspace w
      | None \<Rightarrow> ''default'')"

section \<open>The workspace registry (services/shared.ts)\<close>

text \<open>
  A services instance (\<open>ClickUpServices\<close>) is an object bound to the credentials it was
  created with. Instances live in a store, \<open>bundles\<close>; the reference of an instance is
  its index there, so that two references are equal exactly when they denote the same
  instance.
\<close>

record ClickUpServices =
  bound_apiKey :: "string option"
  bound_teamId :: "string option"

text \<open>
  The state of the module: the \<open>Map\<close> from workspace id to services instance (entries
  in insertion order), the store of constructed bundles, and the messages passed to
  \<open>logger.info\<close>.
\<close>

record registry =
  workspaceServicesMap :: "(string \<times> nat) list"
  bundles :: "ClickUpServices list"
  info_log :: "string list"

text \<open>
  Modelled from the spec: \<open>createClickUpServices\<close> (services/clickup/index.ts) is not
  among the sources. The spec treats it as an opaque factory that, given a token and an
  account identifier, produces a service bundle bound to that pair, with no network
  traffic during construction. Each call allocates a new instance and returns its
  reference; it does not throw.
\<close>

definition createClickUpServices ::
  "string option \<Rightarrow> string option \<Rightarrow> registry \<Rightarrow> nat \<times> registry" where
  "createClickUpServices apiKey team s =
     (length (bundles s),
      s\<lparr>bundles := bundles s @ [\<lparr>bound_apiKey = apiKey, bound_teamId = team\<rparr>]\<rparr>)"

text \<open>\<open>logger.info(message, ...)\<close>: the message is recorded.\<close>

definition logger_info :: "string \<Rightarrow> registry \<Rightarrow> registry" where
  "logger_info msg s = s\<lparr>info_log := info_log s @ [msg]\<rparr>"

text \<open>
  \<open>getClickUpServices\<close>. The result is the thrown error or the reference of the services
  instance, with the state after the call. \<open>Map.get\<close> is \<open>map_of\<close>, \<open>Map.set\<close> is
  \<open>AList.update\<close> (replace in place, else append). A stored instance is an object, hence
  truthy: \<open>!services\<close> holds exactly when the key is absent. The \<open>console.error\<close>
  lines write debugging output and change nothing the module keeps; they are left out.
\<close>

definition getClickUpServices ::
  "Config \<Rightarrow> string option \<Rightarrow> registry \<Rightarrow> (js_error + nat) \<times> registry" where
  "getClickUpServices cfg workspaceId s =
     (let wsId = js_or_str workspaceId (getDefaultWorkspace cfg) in
      case map_of (workspaceServicesMap s) wsId of
        Some services \<Rightarrow> (Inr services, s)
      | None \<Rightarrow>
          (let s1 = logger_info (''Creating ClickUp services for workspace: '' @ wsId) s in
           case getWorkspaceConfig cfg (Some wsId) of
             Inl e \<Rightarrow> (Inl e, s1)
           | Inr workspaceConfig \<Rightarrow>
               (let (services, s2) =
                      createClickUpServices (token workspaceConfig) (teamId workspaceConfig) s1;
                    s3 = s2\<lparr>workspaceServicesMap :=
                              AList.update wsId services (workspaceServicesMap s2)\<rparr>;
                    s4 = logger_info
                           (''Services initialization complete for workspace: '' @ wsId) s3
                in (Inr services, s4))))"

text \<open>
  The module's top level: the map starts empty and
  \<open>export const clickUpServices = getClickUpServices()\<close> runs when the module is loaded.
\<close>

definition initial_registry :: registry where
  "initial_registry = \<lparr>workspaceServicesMap = [], bundles = [], info_log = []\<rparr>"

definition shared_module_init :: "Config \<Rightarrow> (js_error + nat) \<times> registry" where
  "shared_module_init cfg = getClickUpServices cfg None initial_registry"

text \<open>
  A sequence of calls of \<open>getClickUpServices\<close>, one per selector, whatever each returns
  or throws; the state is threaded through.
\<close>

fun run_calls :: "Config \<Rightarrow> string option list \<Rightarrow> registry \<Rightarrow> registry" where
  "run_calls cfg [] s = s"
| "run_calls cfg (w # ws) s = run_calls cfg ws (snd (getClickUpServices cfg w s))"

section \<open>The dispatch helper (tools/workspace-helper.ts)\<close>

text \<open>
  \<open>getServicesForWorkspace\<close>: any error of \<open>getClickUpServices\<close> is caught and a new
  \<open>Error\<close> is thrown whose message is the caught message, a line break, and the
  available workspaces.
\<close>

definition getServicesForWorkspace ::
  "Config \<Rightarrow> string option \<Rightarrow> registry \<Rightarrow> (js_error + nat) \<times> registry" where
  "getServicesForWorkspace cfg workspace s =
     (case getClickUpServices cfg workspace s of
        (Inr services, s') \<Rightarrow> (Inr services, s')
      | (Inl e, s') \<Rightarrow>
          (Inl (Error (message e @ ''\<newline>Available workspaces: '' @
                       join '', '' (getAvailableWorkspaces cfg))), s'))"

section \<open>The response service (utils/sponsor-service.ts)\<close>

text \<open>
  The values handlers pass as \<open>data\<close>. \<open>Num n\<close> is the number with the integer value
  \<open>n\<close>, in the range where JavaScript prints a number as its decimal digits
  (\<open>|n| < 10^21\<close>); fractions, \<open>NaN\<close> and the infinities are not modelled. An object is
  the list of its own enumerable properties in enumeration order, an array the list of
  its elements. The values are finite trees: cyclic structures and \<open>BigInt\<close>, on which
  \<open>JSON.stringify\<close> throws, are outside the type.
\<close>

datatype jsval = Undefined | Null | Bool bool | Num int | Str string
  | Arr "jsval list" | Obj "(string \<times> jsval) list"

definition typeof :: "jsval \<Rightarrow> string" where
  "typeof v =
     (case v of
        Undefined \<Rightarrow> ''undefined''
      | Null \<Rightarrow> ''object''
      | Bool b \<Rightarrow> ''boolean''
      | Num n \<Rightarrow> ''number''
      | Str s \<Rightarrow> ''string''
      | Arr xs \<Rightarrow> ''object''
      | Obj kvs \<Rightarrow> ''object'')"

definition js_truthy :: "jsval \<Rightarrow> bool" where
  "js_truthy v =
     (case v of
        Undefined \<Rightarrow> False
      | Null \<Rightarrow> False
      | Bool b \<Rightarrow> b
      | Num n \<Rightarrow> n \<noteq> 0
      | Str s \<Rightarrow> s \<noteq> []
      | Arr xs \<Rightarrow> True
      | Obj kvs \<Rightarrow> True)"

text \<open>
  The property \<open>k\<close> of a value, for a name \<open>k\<close> that neither arrays nor
  \<open>Object.prototype\<close> define (here: \<open>hierarchy\<close>): only an object can have it, as an own
  property. \<open>own_property v k \<noteq> None\<close> is \<open>k in v\<close>, and \<open>get_member v k\<close> is \<open>v[k]\<close>.
\<close>

fun own_property :: "jsval \<Rightarrow> string \<Rightarrow> jsval option" where
  "own_property (Obj kvs) k = map_of kvs k"
| "own_property v k = None"

definition get_member :: "jsval \<Rightarrow> string \<Rightarrow> jsval" where
  "get_member v k = (case own_property v k of None \<Rightarrow> Undefined | Some x \<Rightarrow> x)"

subsection \<open>\<open>JSON.stringify(data, null, 2)\<close>\<close>

definition digit_char :: "nat \<Rightarrow> char" where
  "digit_char d = ''0123456789'' ! d"

fun nat_digits :: "nat \<Rightarrow> string" where
  "nat_digits n =
     (if n < 10 then [digit_char n] else nat_digits (n div 10) @ [digit_char (n mod 10)])"

declare nat_digits.simps [simp del]

definition number_text :: "int \<Rightarrow> string" where
  "number_text n = (if n < 0 then ''-'' @ nat_digits (nat (- n)) else nat_digits (nat n))"

definition hex_digit :: "nat \<Rightarrow> char" where
  "hex_digit d = ''0123456789abcdef'' ! d"

text \<open>
  \<open>QuoteJSONString\<close>: the quotation mark, the backslash and the control characters are
  escaped, every other character is copied.
\<close>

definition escape_char :: "char \<Rightarrow> string" where
  "escape_char c =
     (if c = CHR 0x22 then [CHR 0x5C, CHR 0x22]
      else if c = CHR 0x5C then [CHR 0x5C, CHR 0x5C]
      else if c = CHR 0x08 then [CHR 0x5C, CHR ''b'']
      else if c = CHR 0x0C then [CHR 0x5C, CHR ''f'']
      else if c = CHR 0x0A then [CHR 0x5C, CHR ''n'']
      else if c = CHR 0x0D then [CHR 0x5C, CHR ''r'']
      else if c = CHR 0x09 then [CHR 0x5C, CHR ''t'']
      else if (of_char c :: nat) < 32 then
        [CHR 0x5C, CHR ''u'', CHR ''0'', CHR ''0'',
         hex_digit (of_char c div 16), hex_digit (of_char c mod 16)]
      else [c])"

definition quote :: "string \<Rightarrow> string" where
  "quote s = [CHR 0x22] @ concat (map escape_char s) @ [CHR 0x22]"

text \<open>
  \<open>SerializeJSONProperty\<close> with a gap of two spaces; \<open>None\<close> is the result \<open>undefined\<close>.
  An \<open>undefined\<close> property of an object is left out, an \<open>undefined\<close> element of an array
  is written \<open>null\<close>.
\<close>

fun SerializeJSONProperty :: "string \<Rightarrow> jsval \<Rightarrow> string option" where
  "SerializeJSONProperty indent Undefined = None"
| "SerializeJSONProperty indent Null = Some ''null''"
| "SerializeJSONProperty indent (Bool b) = Some (if b then ''true'' else ''false'')"
| "SerializeJSONProperty indent (Num n) = Some (number_text n)"
| "SerializeJSONProperty indent (Str s) = Some (quote s)"
| "SerializeJSONProperty indent (Arr xs) =
     (let stepback = indent; indent = indent @ ''  '';
          partial = map (\<lambda>x. case SerializeJSONProperty indent x of
                                 None \<Rightarrow> ''null'' | Some t \<Rightarrow> t) xs
      in if partial = [] then Some ''[]''
         else Some (''[\<newline>'' @ indent @ join ('',\<newline>'' @ indent) partial @
                    ''\<newline>'' @ stepback @ '']''))"
| "SerializeJSONProperty indent (Obj kvs) =
     (let stepback = indent; indent = indent @ ''  '';
          partial = concat (map (\<lambda>(k, v). case SerializeJSONProperty indent v of
                                   None \<Rightarrow> []
                                 | Some t \<Rightarrow> [quote k @ '': '' @ t]) kvs)
      in if partial = [] then Some ''{}''
         else Some (''{\<newline>'' @ indent @ join ('',\<newline>'' @ indent) partial @
                    ''\<newline>'' @ stepback @ ''}''))"

definition JSON_stringify :: "jsval \<Rightarrow> string option" where
  "JSON_stringify data = SerializeJSONProperty [] data"

subsection \<open>\<open>createResponse\<close> and \<open>createErrorResponse\<close>\<close>

text \<open>
  The returned \<open>{ content: [{ type, text }] }\<close>. \<open>text\<close> is \<open>None\<close> when
  \<open>JSON.stringify\<close> returns \<open>undefined\<close>. The second parameter of \<open>createResponse\<close>,
  \<open>_includeSponsorMessage\<close>, is never read and is left out.
\<close>

record content_part =
  part_type :: string
  part_text :: "string option"

record envelope =
  content :: "content_part list"

definition createResponse :: "jsval \<Rightarrow> envelope" where
  "createResponse data =
     (if js_truthy data \<and> typeof data = ''object'' \<and> own_property data ''hierarchy'' \<noteq> None
         \<and> typeof (get_member data ''hierarchy'') = ''string''
      then \<lparr>content = [\<lparr>part_type = ''text'',
                        part_text = (case get_member data ''hierarchy'' of
                                       Str h \<Rightarrow> Some h | _ \<Rightarrow> None)\<rparr>]\<rparr>
      else if typeof data = ''string''
      then \<lparr>content = [\<lparr>part_type = ''text'',
                        part_text = (case data of Str s \<Rightarrow> Some s | _ \<Rightarrow> None)\<rparr>]\<rparr>
      else \<lparr>content = [\<lparr>part_type = ''text'', part_text = JSON_stringify data\<rparr>]\<rparr>)"

text \<open>
  The object literal \<open>{ error: ..., ...context }\<close>. Spreading copies the own properties
  of \<open>context\<close> in order with \<open>CreateDataProperty\<close>: an existing key keeps its place
  and takes the new value; a new key that is an array index (the canonical decimal form
  of an integer up to \<open>2^32 - 2\<close>) goes among the array indices in ascending order,
  before every other key; any other new key goes last. An omitted \<open>context\<close>
  (\<open>None\<close>) spreads nothing.
\<close>

definition is_digit :: "char \<Rightarrow> bool" where
  "is_digit c \<longleftrightarrow> c \<in> set ''0123456789''"

definition decimal_value :: "string \<Rightarrow> nat" where
  "decimal_value s = foldl (\<lambda>a c. 10 * a + (of_char c - 48)) 0 s"

definition array_index :: "string \<Rightarrow> nat option" where
  "array_index k =
     (case k of
        [] \<Rightarrow> None
      | c # cs \<Rightarrow>
          if list_all is_digit k \<and> (c \<noteq> CHR ''0'' \<or> cs = []) \<and> decimal_value k \<le> 4294967294
          then Some (decimal_value k) else None)"

fun insert_index ::
  "nat \<Rightarrow> string \<Rightarrow> jsval \<Rightarrow> (string \<times> jsval) list \<Rightarrow> (string \<times> jsval) list" where
  "insert_index i k v [] = [(k, v)]"
| "insert_index i k v ((k', v') # rest) =
     (case array_index k' of
        Some j \<Rightarrow> if j < i then (k', v') # insert_index i k v rest
                  else (k, v) # (k', v') # rest
      | None \<Rightarrow> (k, v) # (k', v') # rest)"

definition CreateDataProperty ::
  "(string \<times> jsval) list \<Rightarrow> string \<Rightarrow> jsval \<Rightarrow> (string \<times> jsval) list" where
  "CreateDataProperty obj k v =
     (if k \<in> fst ` set obj then AList.update k v obj
      else (case array_index k of
              Some i \<Rightarrow> insert_index i k v obj
            | None \<Rightarrow> obj @ [(k, v)]))"

definition spread ::
  "(string \<times> jsval) list \<Rightarrow> (string \<times> jsval) list \<Rightarrow> (string \<times> jsval) list" where
  "spread target source = foldl (\<lambda>obj (k, v). CreateDataProperty obj k v) target source"






section \<open>The tool visibility filter\<close>

text \<open>
  Modelled from the spec: the function that computes the enabled tools from
  \<open>configuration.enabledTools\<close> and \<open>configuration.disabledTools\<close> is not among the
  sources (only the parsing of the two lists is, see \<open>parseToolList\<close>). The spec gives
  \<open>effectiveSet(catalog, enabledList, disabledList)\<close> in three clauses: if the enabled list
  is non-empty, the catalog restricted to it; else the catalog without the disabled
  list; else, both being empty, the catalog. The catalog is the list of tool names in
  the order the server advertises them.
\<close>

definition effectiveSet :: "string list \<Rightarrow> string list \<Rightarrow> string list \<Rightarrow> string list" where
  "effectiveSet catalog enabledList disabledList =
     (if enabledList \<noteq> [] then filter (\<lambda>t. t \<in> set enabledList) catalog
      else if disabledList \<noteq> [] then filter (\<lambda>t. t \<notin> set disabledList) catalog
      else catalog)"

section \<open>Notions used in the statements\<close>

text \<open>What a configuration that passed \<open>loadConfig\<close> satisfies.\<close>

definition valid_config :: "Config \<Rightarrow> bool" where
  "valid_config cfg =
     (case clickupWorkspaces cfg of
        Some w \<Rightarrow> default_workspace w \<noteq> [] \<and>
                  get_property (workspaces w) (default_workspace w) \<noteq> NoProperty
      | None \<Rightarrow> clickupApiKey cfg \<noteq> [] \<and> clickupTeamId cfg \<noteq> [])"

text \<open>\<open>getWorkspaceConfig(k)\<close> returns.\<close>

definition resolves :: "Config \<Rightarrow> string \<Rightarrow> bool" where
  "resolves cfg k \<longleftrightarrow> (\<exists>ws. getWorkspaceConfig cfg (Some k) = Inr ws)"



section \<open>JSON texts\<close>

text \<open>
  What it means for a text to deserialize to a value: the grammar of JSON, as a
  relation between texts and the values they denote. \<open>is_ws\<close> holds of insignificant
  white space. \<open>char_text e c\<close>: inside a string literal, \<open>e\<close> stands for the character
  \<open>c\<close> (itself, or an escape). \<open>json_text t v\<close>: the text \<open>t\<close> denotes the value \<open>v\<close>;
  numbers are read in the decimal form of \<open>number_text\<close>. No text denotes \<open>undefined\<close>.
\<close>

definition is_ws :: "string \<Rightarrow> bool" where
  "is_ws w \<longleftrightarrow> set w \<subseteq> set [CHR 0x20, CHR 0x09, CHR 0x0A, CHR 0x0D]"

inductive char_text :: "string \<Rightarrow> char \<Rightarrow> bool" where
  plain: "c \<noteq> CHR 0x22 \<Longrightarrow> c \<noteq> CHR 0x5C \<Longrightarrow> 32 \<le> (of_char c :: nat) \<Longrightarrow> char_text [c] c"
| quotation_mark: "char_text [CHR 0x5C, CHR 0x22] (CHR 0x22)"
| reverse_solidus: "char_text [CHR 0x5C, CHR 0x5C] (CHR 0x5C)"
| backspace: "char_text [CHR 0x5C, CHR ''b''] (CHR 0x08)"
| form_feed: "char_text [CHR 0x5C, CHR ''f''] (CHR 0x0C)"
| line_feed: "char_text [CHR 0x5C, CHR ''n''] (CHR 0x0A)"
| carriage_return: "char_text [CHR 0x5C, CHR ''r''] (CHR 0x0D)"
| tab: "char_text [CHR 0x5C, CHR ''t''] (CHR 0x09)"
| code_unit: "char_text [CHR 0x5C, CHR ''u'', CHR ''0'', CHR ''0'',
                hex_digit (of_char c div 16), hex_digit (of_char c mod 16)] c"

inductive string_text :: "string \<Rightarrow> string \<Rightarrow> bool" where
  empty: "string_text [] []"
| char: "char_text e c \<Longrightarrow> string_text es s \<Longrightarrow> string_text (e @ es) (c # s)"

inductive json_text :: "string \<Rightarrow> jsval \<Rightarrow> bool"
  and json_elements :: "string \<Rightarrow> jsval list \<Rightarrow> bool"
  and json_members :: "string \<Rightarrow> (string \<times> jsval) list \<Rightarrow> bool" where
  null: "json_text ''null'' Null"
| true: "json_text ''true'' (Bool True)"
| false: "json_text ''false'' (Bool False)"
| number: "json_text (number_text n) (Num n)"
| string: "string_text b s \<Longrightarrow> json_text ([CHR 0x22] @ b @ [CHR 0x22]) (Str s)"
| empty_array: "is_ws w \<Longrightarrow> json_text (''['' @ w @ '']'') (Arr [])"
| array: "json_elements b (x # xs) \<Longrightarrow> json_text (''['' @ b @ '']'') (Arr (x # xs))"
| empty_object: "is_ws w \<Longrightarrow> json_text (''{'' @ w @ ''}'') (Obj [])"
| object: "json_members b (m # ms) \<Longrightarrow> json_text (''{'' @ b @ ''}'') (Obj (m # ms))"
| padded: "is_ws w1 \<Longrightarrow> is_ws w2 \<Longrightarrow> json_text t v \<Longrightarrow> json_text (w1 @ t @ w2) v"
| last_element: "json_text t x \<Longrightarrow> json_elements t [x]"
| element: "json_text t x \<Longrightarrow> json_elements b (y # ys) \<Longrightarrow>
            json_elements (t @ '','' @ b) (x # y # ys)"
| last_member: "is_ws w1 \<Longrightarrow> string_text kb k \<Longrightarrow> is_ws w2 \<Longrightarrow> json_text t v \<Longrightarrow>
            json_members (w1 @ [CHR 0x22] @ kb @ [CHR 0x22] @ w2 @ '':'' @ t) [(k, v)]"
| member: "is_ws w1 \<Longrightarrow> string_text kb k \<Longrightarrow> is_ws w2 \<Longrightarrow> json_text t v \<Longrightarrow>
            json_members b (m # ms) \<Longrightarrow>
            json_members (w1 @ [CHR 0x22] @ kb @ [CHR 0x22] @ w2 @ '':'' @ t @ '','' @ b)
              ((k, v) # m # ms)"

text \<open>
  What is left of a value after \<open>JSON.stringify\<close>: an \<open>undefined\<close> property is dropped,
  an \<open>undefined\<close> array element becomes \<open>null\<close>.
\<close>

fun json_image :: "jsval \<Rightarrow> jsval" where
  "json_image (Arr xs) = Arr (map (\<lambda>x. if x = Undefined then Null else json_image x) xs)"
| "json_image (Obj kvs) =
     Obj (concat (map (\<lambda>(k, v). if v = Undefined then [] else [(k, json_image v)]) kvs))"
| "json_image v = v"

text \<open>The text of one member of an object as \<open>SerializeJSONProperty\<close> writes it.\<close>

definition member_text :: "string \<Rightarrow> string \<times> jsval \<Rightarrow> bool" where
  "member_text p m \<longleftrightarrow> (\<exists>t. p = quote (fst m) @ '': '' @ t \<and> json_text t (snd m))"

section \<open>Example configurations\<close>

text \<open>
  A two-workspace configuration given together with the legacy variables, the legacy
  variables alone, and a blob whose default names a member of \<open>Object.prototype\<close>. The
  example \<open>JSON.parse\<close> knows the two blobs.
\<close>

definition example_json :: string where
  "example_json = ''{\"default\":\"main\",\"workspaces\":{\"main\":{\"token\":\"pk_1\",\"teamId\":\"9001\"},\"client\":{\"token\":\"pk_2\",\"teamId\":\"9002\",\"description\":\"Client\"}}}''"

definition inherited_json :: string where
  "inherited_json = ''{\"default\":\"constructor\",\"workspaces\":{\"main\":{\"token\":\"pk_1\",\"teamId\":\"9001\"}}}''"

definition example_JSON_parse :: "string \<Rightarrow> js_error + ParsedBlob" where
  "example_JSON_parse t =
     (if t = example_json then
        Inr \<lparr>blob_default = Some ''main'',
             blob_workspaces = Some
               [(''main'', \<lparr>token = Some ''pk_1'', teamId = Some ''9001'', description = None\<rparr>),
                (''client'', \<lparr>token = Some ''pk_2'', teamId = Some ''9002'',
                              description = Some ''Client''\<rparr>)]\<rparr>
      else if t = inherited_json then
        Inr \<lparr>blob_default = Some ''constructor'',
             blob_workspaces = Some
               [(''main'', \<lparr>token = Some ''pk_1'', teamId = Some ''9001'', description = None\<rparr>)]\<rparr>
      else Inl (SyntaxError ''Unexpected token''))"

definition example_env :: environment where
  "example_env =
     \<lparr>arg_clickupApiKey = None, env_CLICKUP_API_KEY = Some ''pk_legacy'',
      arg_clickupTeamId = None, env_CLICKUP_TEAM_ID = Some ''77'',
      arg_clickupWorkspaces = None, env_CLICKUP_WORKSPACES = Some example_json,
      arg_disabledTools = None, env_DISABLED_TOOLS = None, env_DISABLED_COMMANDS = None,
      arg_enabledTools = None, env_ENABLED_TOOLS = None\<rparr>"

definition example_workspaces :: ClickUpWorkspacesConfig where
  "example_workspaces =
     \<lparr>default_workspace = ''main'',
      workspaces =
        [(''main'', \<lparr>token = Some ''pk_1'', teamId = Some ''9001'', description = None\<rparr>),
         (''client'', \<lparr>token = Some ''pk_2'', teamId = Some ''9002'',
                       description = Some ''Client''\<rparr>)]\<rparr>"

definition example_config :: Config where
  "example_config =
     \<lparr>clickupApiKey = ''pk_legacy'', clickupTeamId = ''77'',
      clickupWorkspaces = Some example_workspaces,
      disabledTools = [], enabledTools = []\<rparr>"


definition legacy_config :: Config where
  "legacy_config =
     \<lparr>clickupApiKey = ''pk_legacy'', clickupTeamId = ''77'', clickupWorkspaces = None,
      disabledTools = [], enabledTools = []\<rparr>"

definition inherited_env :: environment where
  "inherited_env =
     \<lparr>arg_clickupApiKey = None, env_CLICKUP_API_KEY = None,
      arg_clickupTeamId = None, env_CLICKUP_TEAM_ID = None,
      arg_clickupWorkspaces = None, env_CLICKUP_WORKSPACES = Some inherited_json,
      arg_disabledTools = None, env_DISABLED_TOOLS = None, env_DISABLED_COMMANDS = None,
      arg_enabledTools = None, env_ENABLED_TOOLS = None\<rparr>"

definition inherited_config :: Config where
  "inherited_config =
     \<lparr>clickupApiKey = [], clickupTeamId = [],
      clickupWorkspaces = Some
        \<lparr>default_workspace = ''constructor'',
         workspaces =
           [(''main'', \<lparr>token = Some ''pk_1'', teamId = Some ''9001'', description = None\<rparr>)]\<rparr>,
      disabledTools = [], enabledTools = []\<rparr>"

section \<open>Facts about the configuration\<close>

lemma js_or_str_None [simp]: "js_or_str None d = d"
  by (simp add: js_or_str_def)

lemma js_or_str_empty [simp]: "js_or_str (Some []) d = d"
  by (simp add: js_or_str_def)

lemma js_or_str_Some [simp]: "k \<noteq> [] \<Longrightarrow> js_or_str (Some k) d = k"
  by (simp add: js_or_str_def)


lemma parseWorkspaces_try_default:
  "parseWorkspaces_try J t = Inr w \<Longrightarrow> default_workspace w \<noteq> []"
  by (auto simp: parseWorkspaces_try_def split: sum.splits option.splits if_splits)

lemma parseWorkspaces_default:
  "parseWorkspaces J env = Inr (Some w) \<Longrightarrow> default_workspace w \<noteq> []"
  by (auto simp: parseWorkspaces_def split: sum.splits option.splits if_splits
           dest: parseWorkspaces_try_default)

lemma parseWorkspaces_present:
  "parseWorkspaces J env = Inr cw \<Longrightarrow>
   truthy (js_or (arg_clickupWorkspaces env) (env_CLICKUP_WORKSPACES env)) \<Longrightarrow> cw \<noteq> None"
  by (auto simp: parseWorkspaces_def truthy_def split: option.splits if_splits sum.splits)

lemma parseWorkspaces_legacy_irrelevant:
  "parseWorkspaces J (env\<lparr>arg_clickupApiKey := a1, env_CLICKUP_API_KEY := a2,
                         arg_clickupTeamId := t1, env_CLICKUP_TEAM_ID := t2\<rparr>)
     = parseWorkspaces J env"
  by (simp add: parseWorkspaces_def)

lemma configuration_workspaces:
  "configuration J env = Inr cfg \<Longrightarrow> parseWorkspaces J env = Inr (clickupWorkspaces cfg)"
  by (auto simp: configuration_def split: sum.splits)

lemma validate_None:
  "validate cfg = None \<Longrightarrow>
     (case clickupWorkspaces cfg of
        Some w \<Rightarrow> get_property (workspaces w) (default_workspace w) \<noteq> NoProperty
      | None \<Rightarrow> clickupApiKey cfg \<noteq> [] \<and> clickupTeamId cfg \<noteq> [])"
  by (auto simp: validate_def Let_def split: option.splits property.splits if_splits)

lemma validate_multi:
  "clickupWorkspaces cfg = Some w \<Longrightarrow> clickupWorkspaces cfg' = Some w \<Longrightarrow>
     validate cfg' = validate cfg"
  by (simp add: validate_def)

lemma loadConfig_valid:
  assumes "loadConfig J env = Inr cfg"
  shows "valid_config cfg"
proof -
  from assms have c: "configuration J env = Inr cfg" and v: "validate cfg = None"
    by (auto simp: loadConfig_def split: sum.splits option.splits)
  show ?thesis
  proof (cases "clickupWorkspaces cfg")
    case None
    with validate_None[OF v] show ?thesis by (simp add: valid_config_def)
  next
    case (Some w)
    with configuration_workspaces[OF c] have "default_workspace w \<noteq> []"
      by (auto dest: parseWorkspaces_default)
    with Some validate_None[OF v] show ?thesis by (simp add: valid_config_def)
  qed
qed


lemma resolves_multi:
  "clickupWorkspaces cfg = Some w \<Longrightarrow>
     resolves cfg k \<longleftrightarrow>
       get_property (workspaces w) (js_or_str (Some k) (default_workspace w)) \<noteq> NoProperty"
  by (cases "get_property (workspaces w) (js_or_str (Some k) (default_workspace w))")
     (simp_all add: resolves_def getWorkspaceConfig_def Let_def)

lemma resolves_legacy:
  "clickupWorkspaces cfg = None \<Longrightarrow> resolves cfg k \<longleftrightarrow> k = [] \<or> k = ''default''"
  by (simp add: resolves_def getWorkspaceConfig_def truthy_def)

lemma default_resolves: "valid_config cfg \<Longrightarrow> resolves cfg (getDefaultWorkspace cfg)"
  by (cases "clickupWorkspaces cfg")
     (simp_all add: valid_config_def getDefaultWorkspace_def resolves_multi resolves_legacy)




lemma getWorkspaceConfig_multi:
  "clickupWorkspaces cfg = Some w \<Longrightarrow> clickupWorkspaces cfg' = Some w \<Longrightarrow>
     getWorkspaceConfig cfg' sel = getWorkspaceConfig cfg sel"
  by (simp add: getWorkspaceConfig_def)

lemma getWorkspaceConfig_from_map:
  assumes "clickupWorkspaces cfg = Some w" and "getWorkspaceConfig cfg sel = Inr ws"
  shows "ws \<in> snd ` set (workspaces w) \<or>
         ws = \<lparr>token = None, teamId = None, description = None\<rparr>"
proof (cases "map_of (workspaces w) (js_or_str sel (default_workspace w))")
  case None
  with assms show ?thesis
    by (auto simp: getWorkspaceConfig_def get_property_def Let_def split: if_splits)
next
  case (Some e)
  then have "(js_or_str sel (default_workspace w), e) \<in> set (workspaces w)"
    by (rule map_of_SomeD)
  then have "e \<in> snd ` set (workspaces w)" by force
  with Some assms show ?thesis
    by (simp add: getWorkspaceConfig_def get_property_def Let_def)
qed


lemma parseToolList_no_empty: "[] \<notin> set (parseToolList v)"
  by (simp add: parseToolList_def split: option.splits)

text \<open>The example environments load to the example configurations.\<close>

lemma load_example: "loadConfig example_JSON_parse example_env = Inr example_config"
  by (simp add: loadConfig_def configuration_def parseWorkspaces_def parseWorkspaces_try_def
        validate_def example_JSON_parse_def example_env_def example_config_def
        example_workspaces_def js_or_def truthy_def or_empty_def parseToolList_def
        get_property_def example_json_def)



lemma available_legacy: "getAvailableWorkspaces legacy_config = [''default'']"
  by (simp add: getAvailableWorkspaces_def legacy_config_def)

section \<open>Facts about the registry\<close>

lemma update_absent: "map_of m k = None \<Longrightarrow> AList.update k v m = m @ [(k, v)]"
  by (induction m) (auto split: if_splits)


text \<open>The three outcomes of a call: a hit, a miss that throws, a miss that constructs.\<close>

lemma getClickUpServices_hit:
  "map_of (workspaceServicesMap s) (js_or_str sel (getDefaultWorkspace cfg)) = Some r \<Longrightarrow>
     getClickUpServices cfg sel s = (Inr r, s)"
  by (simp add: getClickUpServices_def Let_def)

lemma getClickUpServices_fail:
  "map_of (workspaceServicesMap s) (js_or_str sel (getDefaultWorkspace cfg)) = None \<Longrightarrow>
   getWorkspaceConfig cfg (Some (js_or_str sel (getDefaultWorkspace cfg))) = Inl e \<Longrightarrow>
     getClickUpServices cfg sel s =
       (Inl e, s\<lparr>info_log := info_log s @
          [''Creating ClickUp services for workspace: '' @ js_or_str sel (getDefaultWorkspace cfg)]\<rparr>)"
  by (simp add: getClickUpServices_def Let_def logger_info_def)

lemma getClickUpServices_miss:
  "map_of (workspaceServicesMap s) (js_or_str sel (getDefaultWorkspace cfg)) = None \<Longrightarrow>
   getWorkspaceConfig cfg (Some (js_or_str sel (getDefaultWorkspace cfg))) = Inr ws \<Longrightarrow>
     getClickUpServices cfg sel s =
       (Inr (length (bundles s)),
        \<lparr>workspaceServicesMap =
           workspaceServicesMap s @ [(js_or_str sel (getDefaultWorkspace cfg), length (bundles s))],
         bundles = bundles s @ [\<lparr>bound_apiKey = token ws, bound_teamId = teamId ws\<rparr>],
         info_log = info_log s @
           [''Creating ClickUp services for workspace: '' @ js_or_str sel (getDefaultWorkspace cfg),
            ''Services initialization complete for workspace: '' @
              js_or_str sel (getDefaultWorkspace cfg)]\<rparr>)"
  by (simp add: getClickUpServices_def Let_def logger_info_def createClickUpServices_def
        update_absent)









lemma cached_stays:
  assumes "map_of (workspaceServicesMap s) k = Some r"
  shows "map_of (workspaceServicesMap (snd (getClickUpServices cfg sel s))) k = Some r"
proof (cases "map_of (workspaceServicesMap s) (js_or_str sel (getDefaultWorkspace cfg))")
  case (Some r')
  with assms show ?thesis by (simp add: getClickUpServices_hit)
next
  case None
  with assms have "k \<noteq> js_or_str sel (getDefaultWorkspace cfg)" by auto
  with None assms show ?thesis
    by (cases "getWorkspaceConfig cfg (Some (js_or_str sel (getDefaultWorkspace cfg)))")
       (simp_all add: getClickUpServices_fail getClickUpServices_miss map_add_def)
qed

lemma cached_stays_run:
  "map_of (workspaceServicesMap s) k = Some r \<Longrightarrow>
     map_of (workspaceServicesMap (run_calls cfg sels s)) k = Some r"
  by (induction sels arbitrary: s) (simp_all add: cached_stays)

section \<open>Facts about the response service\<close>




text \<open>Array indices of the context come first, in ascending order; \<open>error\<close> is overridden in place.\<close>

lemma spread_order_example:
  "spread [(''error'', Str ''boom'')]
          [(''2'', Null), (''10'', Null), (''id'', Num 1), (''error'', Str ''other'')]
     = [(''2'', Null), (''10'', Null), (''error'', Str ''other''), (''id'', Num 1)]"
  by (simp add: spread_def CreateDataProperty_def array_index_def is_digit_def
        decimal_value_def)


lemma createResponse_plain_object:
  assumes "\<forall>h. map_of kvs ''hierarchy'' \<noteq> Some (Str h)"
  shows "createResponse (Obj kvs)
           = \<lparr>content = [\<lparr>part_type = ''text'', part_text = JSON_stringify (Obj kvs)\<rparr>]\<rparr>"
proof (cases "map_of kvs ''hierarchy''")
  case None
  then show ?thesis by (simp add: createResponse_def typeof_def)
next
  case (Some v)
  with assms have "typeof v \<noteq> ''string''" by (cases v) (simp_all add: typeof_def)
  with Some show ?thesis by (simp add: createResponse_def typeof_def get_member_def)
qed

subsection \<open>The serialization is a JSON text of the value\<close>

lemma char_text_escape: "char_text (escape_char c) c"
proof -
  consider "c = CHR 0x22" | "c = CHR 0x5C" | "c = CHR 0x08" | "c = CHR 0x0C" | "c = CHR 0x0A"
    | "c = CHR 0x0D" | "c = CHR 0x09"
    | "c \<notin> {CHR 0x22, CHR 0x5C, CHR 0x08, CHR 0x0C, CHR 0x0A, CHR 0x0D, CHR 0x09}"
        "(of_char c :: nat) < 32"
    | "c \<notin> {CHR 0x22, CHR 0x5C, CHR 0x08, CHR 0x0C, CHR 0x0A, CHR 0x0D, CHR 0x09}"
        "\<not> (of_char c :: nat) < 32"
    by blast
  then show ?thesis
  proof cases
    case 1 then show ?thesis by (simp add: escape_char_def char_text.quotation_mark)
  next
    case 2 then show ?thesis by (simp add: escape_char_def char_text.reverse_solidus)
  next
    case 3 then show ?thesis by (simp add: escape_char_def char_text.backspace)
  next
    case 4 then show ?thesis by (simp add: escape_char_def char_text.form_feed)
  next
    case 5 then show ?thesis by (simp add: escape_char_def char_text.line_feed)
  next
    case 6 then show ?thesis by (simp add: escape_char_def char_text.carriage_return)
  next
    case 7 then show ?thesis by (simp add: escape_char_def char_text.tab)
  next
    case 8 then show ?thesis by (simp add: escape_char_def char_text.code_unit)
  next
    case 9 then show ?thesis by (simp add: escape_char_def char_text.plain)
  qed
qed

lemma string_text_escape: "string_text (concat (map escape_char s)) s"
  by (induction s) (simp_all add: string_text.empty string_text.char char_text_escape)

lemma json_text_quote: "json_text (quote s) (Str s)"
  unfolding quote_def by (rule json_text_json_elements_json_members.string) (rule string_text_escape)

lemma is_ws_Nil [simp]: "is_ws []"
  by (simp add: is_ws_def)

lemma is_ws_append [simp]: "is_ws (a @ b) \<longleftrightarrow> is_ws a \<and> is_ws b"
  by (auto simp: is_ws_def)

lemma is_ws_Cons [simp]:
  "is_ws (c # w) \<longleftrightarrow> c \<in> set [CHR 0x20, CHR 0x09, CHR 0x0A, CHR 0x0D] \<and> is_ws w"
  by (auto simp: is_ws_def)

lemma Serialize_None: "SerializeJSONProperty ind v = None \<longleftrightarrow> v = Undefined"
  by (cases v) (simp_all add: Let_def)

lemma elements_join:
  assumes "list_all2 json_text ts vs" and "ts \<noteq> []"
      and "is_ws w0" and "is_ws w" and "is_ws w1"
  shows "json_elements (w0 @ join ('','' @ w) ts @ w1) vs"
  using assms
proof (induction ts arbitrary: vs w0)
  case Nil
  then show ?case by simp
next
  case (Cons t ts)
  from Cons.prems(1) obtain v vs' where vs: "vs = v # vs'" and t: "json_text t v"
    and rest: "list_all2 json_text ts vs'"
    by (auto simp: list_all2_Cons1)
  show ?case
  proof (cases ts)
    case Nil
    with rest have "vs' = []" by simp
    moreover have "json_text (w0 @ t @ w1) v"
      using Cons.prems(3,5) t by (rule json_text_json_elements_json_members.padded)
    ultimately show ?thesis
      using Nil vs by (simp add: json_text_json_elements_json_members.last_element)
  next
    case (Cons t' ts')
    with rest obtain v' vs'' where vs': "vs' = v' # vs''" by (auto simp: list_all2_Cons1)
    have first: "json_text (w0 @ t @ []) v"
      using Cons.prems(3) is_ws_Nil t by (rule json_text_json_elements_json_members.padded)
    have more: "json_elements (w @ join ('','' @ w) ts @ w1) (v' # vs'')"
      using Cons.IH[OF rest _ Cons.prems(4) Cons.prems(4) Cons.prems(5)] Cons vs' by simp
    have "json_elements ((w0 @ t @ []) @ '','' @ (w @ join ('','' @ w) ts @ w1)) (v # v' # vs'')"
      using first more by (rule json_text_json_elements_json_members.element)
    with Cons vs vs' show ?thesis by simp
  qed
qed

lemma member_parts:
  assumes "member_text p (k, v)" and "is_ws w0" and "is_ws w1"
  shows "\<exists>kb t. string_text kb k \<and> json_text t v \<and>
           w0 @ p @ w1 = w0 @ [CHR 0x22] @ kb @ [CHR 0x22] @ [] @ '':'' @ t"
proof -
  from assms(1) obtain t where p: "p = quote k @ '': '' @ t" and t: "json_text t v"
    by (auto simp: member_text_def)
  have "is_ws '' ''" by simp
  then have "json_text ('' '' @ t @ w1) v"
    using assms(3) t by (rule json_text_json_elements_json_members.padded)
  moreover have "w0 @ p @ w1 = w0 @ [CHR 0x22] @ concat (map escape_char k) @ [CHR 0x22] @ []
                   @ '':'' @ ('' '' @ t @ w1)"
    by (simp add: p quote_def)
  ultimately show ?thesis using string_text_escape by blast
qed

lemma members_join:
  assumes "list_all2 member_text ps ms" and "ps \<noteq> []"
      and "is_ws w0" and "is_ws w" and "is_ws w1"
  shows "json_members (w0 @ join ('','' @ w) ps @ w1) ms"
  using assms
proof (induction ps arbitrary: ms w0)
  case Nil
  then show ?case by simp
next
  case (Cons p ps)
  from Cons.prems(1) obtain k v ms' where ms: "ms = (k, v) # ms'" and p: "member_text p (k, v)"
    and rest: "list_all2 member_text ps ms'"
    by (auto simp: list_all2_Cons1)
  show ?case
  proof (cases ps)
    case Nil
    with rest have e: "ms' = []" by simp
    from member_parts[OF p Cons.prems(3) Cons.prems(5)] obtain kb t
      where kb: "string_text kb k" and t: "json_text t v"
        and eq: "w0 @ p @ w1 = w0 @ [CHR 0x22] @ kb @ [CHR 0x22] @ [] @ '':'' @ t"
      by blast
    have "json_members (w0 @ [CHR 0x22] @ kb @ [CHR 0x22] @ [] @ '':'' @ t) [(k, v)]"
      using Cons.prems(3) kb is_ws_Nil t
      by (rule json_text_json_elements_json_members.last_member)
    with eq Nil ms e show ?thesis by simp
  next
    case (Cons p' ps')
    with rest obtain m' ms'' where ms': "ms' = m' # ms''" by (auto simp: list_all2_Cons1)
    from member_parts[OF p Cons.prems(3) is_ws_Nil] obtain kb t
      where kb: "string_text kb k" and t: "json_text t v"
        and eq: "w0 @ p @ [] = w0 @ [CHR 0x22] @ kb @ [CHR 0x22] @ [] @ '':'' @ t"
      by blast
    have more: "json_members (w @ join ('','' @ w) ps @ w1) (m' # ms'')"
      using Cons.IH[OF rest _ Cons.prems(4) Cons.prems(4) Cons.prems(5)] Cons ms' by simp
    have "json_members (w0 @ [CHR 0x22] @ kb @ [CHR 0x22] @ [] @ '':'' @ t @ '','' @
                         (w @ join ('','' @ w) ps @ w1)) ((k, v) # m' # ms'')"
      using Cons.prems(3) kb is_ws_Nil t more
      by (rule json_text_json_elements_json_members.member)
    moreover have "w0 @ join ('','' @ w) (p # ps) @ w1
        = (w0 @ p @ []) @ '','' @ (w @ join ('','' @ w) ps @ w1)"
      using Cons by simp
    ultimately show ?thesis using eq ms ms' by simp
  qed
qed

lemma serialize_denotes:
  "is_ws ind \<Longrightarrow> SerializeJSONProperty ind v = Some t \<Longrightarrow> json_text t (json_image v)"
proof (induction v arbitrary: ind t)
  case Undefined
  then show ?case by simp
next
  case Null
  then show ?case by (auto intro: json_text_json_elements_json_members.null)
next
  case (Bool b)
  then show ?case
    by (cases b) (auto intro: json_text_json_elements_json_members.true
                              json_text_json_elements_json_members.false)
next
  case (Num n)
  then show ?case by (auto intro: json_text_json_elements_json_members.number)
next
  case (Str s)
  then show ?case by (auto intro: json_text_quote)
next
  case (Arr xs)
  let ?ind = "ind @ ''  ''"
  let ?f = "\<lambda>x. case SerializeJSONProperty ?ind x of None \<Rightarrow> ''null'' | Some t \<Rightarrow> t"
  let ?g = "\<lambda>x. if x = Undefined then Null else json_image x"
  have ws: "is_ws ?ind" using Arr.prems(1) by simp
  show ?case
  proof (cases "xs = []")
    case True
    with Arr.prems(2) have "t = ''['' @ [] @ '']''" by (simp add: Let_def)
    moreover have "json_text (''['' @ [] @ '']'') (Arr [])"
      using is_ws_Nil by (rule json_text_json_elements_json_members.empty_array)
    ultimately show ?thesis using True by simp
  next
    case False
    have "json_text (?f x) (?g x)" if mem: "x \<in> set xs" for x
    proof (cases "SerializeJSONProperty ?ind x")
      case None
      then have "x = Undefined" by (simp add: Serialize_None)
      with None show ?thesis by (simp add: json_text_json_elements_json_members.null)
    next
      case (Some u)
      then have "x \<noteq> Undefined" by (auto simp: Serialize_None[symmetric])
      with Some Arr.IH[OF mem ws Some] show ?thesis by simp
    qed
    then have each: "list_all2 json_text (map ?f xs) (map ?g xs)"
      by (simp add: list_all2_map1 list_all2_map2 list_all2_same)
    have ne: "map ?f xs \<noteq> []" using False by simp
    have "is_ws (''\<newline>'' @ ?ind)" and "is_ws (''\<newline>'' @ ind)"
      using Arr.prems(1) by simp_all
    from elements_join[OF each ne this(1) this(1) this(2)]
    have el: "json_elements ((''\<newline>'' @ ?ind) @ join ('','' @ ''\<newline>'' @ ?ind) (map ?f xs)
                 @ (''\<newline>'' @ ind)) (map ?g xs)" .
    from False obtain y ys where "map ?g xs = y # ys" by (cases xs) auto
    with el have "json_text (''['' @ ((''\<newline>'' @ ?ind) @ join ('','' @ ''\<newline>'' @ ?ind) (map ?f xs)
                 @ (''\<newline>'' @ ind)) @ '']'') (Arr (map ?g xs))"
      by (simp only: json_text_json_elements_json_members.array)
    moreover from Arr.prems(2) False
    have "t = ''['' @ ((''\<newline>'' @ ?ind) @ join ('','' @ ''\<newline>'' @ ?ind) (map ?f xs)
                 @ (''\<newline>'' @ ind)) @ '']''"
      by (simp add: Let_def)
    ultimately show ?thesis by simp
  qed
next
  case (Obj kvs)
  let ?ind = "ind @ ''  ''"
  let ?f = "\<lambda>(k, v). case SerializeJSONProperty ?ind v of
                         None \<Rightarrow> [] | Some t \<Rightarrow> [quote k @ '': '' @ t]"
  let ?g = "\<lambda>(k, v). if v = Undefined then [] else [(k, json_image v)]"
  let ?ps = "concat (map ?f kvs)"
  let ?ms = "concat (map ?g kvs)"
  have ws: "is_ws ?ind" using Obj.prems(1) by simp
  have "\<forall>p \<in> set kvs'. p \<in> set kvs \<Longrightarrow>
          list_all2 member_text (concat (map ?f kvs')) (concat (map ?g kvs'))" for kvs'
  proof (induction kvs')
    case Nil
    then show ?case by simp
  next
    case (Cons p kvs')
    obtain k v where p: "p = (k, v)" by (cases p)
    with Cons.prems have mem: "(k, v) \<in> set kvs" by simp
    have tail: "list_all2 member_text (concat (map ?f kvs')) (concat (map ?g kvs'))"
      using Cons by simp
    show ?case
    proof (cases "SerializeJSONProperty ?ind v")
      case None
      then have "v = Undefined" by (simp add: Serialize_None)
      with None tail p show ?thesis by simp
    next
      case (Some u)
      then have nu: "v \<noteq> Undefined" by (auto simp: Serialize_None[symmetric])
      have "v \<in> Basic_BNFs.snds (k, v)" by simp
      from Obj.IH[OF mem this ws Some] have "json_text u (json_image v)" .
      then have "member_text (quote k @ '': '' @ u) (k, json_image v)"
        by (auto simp: member_text_def)
      with Some nu tail p show ?thesis by simp
    qed
  qed
  then have each: "list_all2 member_text ?ps ?ms" by simp
  have image: "json_image (Obj kvs) = Obj ?ms" by simp
  show ?case
  proof (cases "?ps = []")
    case True
    with each have ms: "?ms = []" by simp
    from Obj.prems(2) True have t: "t = ''{'' @ [] @ ''}''"
      by (simp add: Let_def del: concat_eq_Nil_conv)
    have "json_text (''{'' @ [] @ ''}'') (Obj [])"
      using is_ws_Nil by (rule json_text_json_elements_json_members.empty_object)
    then show ?thesis unfolding image ms t .
  next
    case False
    have "is_ws (''\<newline>'' @ ?ind)" and "is_ws (''\<newline>'' @ ind)"
      using Obj.prems(1) by simp_all
    from members_join[OF each False this(1) this(1) this(2)]
    have mb: "json_members ((''\<newline>'' @ ?ind) @ join ('','' @ ''\<newline>'' @ ?ind) ?ps
                 @ (''\<newline>'' @ ind)) ?ms" .
    from each False obtain m ms' where ms: "?ms = m # ms'"
      by (cases ?ms) auto
    from Obj.prems(2) False
    have t: "t = ''{'' @ ((''\<newline>'' @ ?ind) @ join ('','' @ ''\<newline>'' @ ?ind) ?ps
                 @ (''\<newline>'' @ ind)) @ ''}''"
      by (simp add: Let_def del: concat_eq_Nil_conv)
    from mb have "json_text (''{'' @ ((''\<newline>'' @ ?ind) @ join ('','' @ ''\<newline>'' @ ?ind) ?ps
                 @ (''\<newline>'' @ ind)) @ ''}'') (Obj (m # ms'))"
      unfolding ms by (rule json_text_json_elements_json_members.object)
    then show ?thesis unfolding image t ms .
  qed
qed

lemma JSON_stringify_denotes: "JSON_stringify v = Some t \<Longrightarrow> json_text t (json_image v)"
  unfolding JSON_stringify_def using is_ws_Nil by (rule serialize_denotes)

text \<open>A text that denotes an object has an opening brace.\<close>

lemma object_text_has_brace:
  "json_text t v \<Longrightarrow> (\<forall>kvs. v = Obj kvs \<longrightarrow> CHR ''{'' \<in> set t)"
  "json_elements b xs \<Longrightarrow> True"
  "json_members c ms \<Longrightarrow> True"
  by (induction rule: json_text_json_elements_json_members.inducts) auto

lemma tree_is_no_object: "\<not> json_text ''tree'' (Obj kvs)"
  using object_text_has_brace(1)[of "''tree''" "Obj kvs"] by auto

section \<open>The claims\<close>

subsection \<open>C1: one bundle per workspace\<close>



subsection \<open>C2: the absent selector is the default workspace\<close>



subsection \<open>C3: an unknown workspace\<close>




text \<open>
  A selector that names a member of \<open>Object.prototype\<close> is not a workspace key
  either, and \<open>workspaces[wsId]\<close> reads the inherited member: the call constructs a
  bundle without credentials.
\<close>

lemma inherited_selector_resolves:
  "''constructor'' \<notin> set (getAvailableWorkspaces example_config) \<and>
   fst (getServicesForWorkspace example_config (Some ''constructor'')
          (snd (shared_module_init example_config))) = Inr 1 \<and>
   bundles (snd (getServicesForWorkspace example_config (Some ''constructor'')
                   (snd (shared_module_init example_config)))) ! 1
     = \<lparr>bound_apiKey = None, bound_teamId = None\<rparr>"
  by (simp add: getAvailableWorkspaces_def getServicesForWorkspace_def
        getClickUpServices_def shared_module_init_def initial_registry_def
        getDefaultWorkspace_def getWorkspaceConfig_def logger_info_def
        createClickUpServices_def example_config_def example_workspaces_def Let_def
        get_property_def Object_prototype_keys_def)

subsection \<open>C4: the workspaces blob takes precedence\<close>

text \<open>
  Claim C4. Let the configuration be loaded from an environment whose
  \<open>CLICKUP_WORKSPACES\<close> text (argument or variable) is non-empty. Then the configuration
  is in multi-workspace mode; for every selector, what \<open>getWorkspaceConfig\<close> returns is
  an entry of the workspaces map (or, for a key that names a member of
  \<open>Object.prototype\<close>, a value without token and team id), never a value built from the
  legacy fields; and setting, changing or removing the legacy key and team id in the
  environment changes neither the success of the load nor any lookup.
\<close>

theorem workspaces_blob_takes_precedence:
  assumes "loadConfig JSON_parse env = Inr cfg"
      and "truthy (js_or (arg_clickupWorkspaces env) (env_CLICKUP_WORKSPACES env))"
  shows "\<exists>w. clickupWorkspaces cfg = Some w \<and>
           (\<forall>ws. getWorkspaceConfig cfg sel = Inr ws \<longrightarrow>
                 ws \<in> snd ` set (workspaces w) \<or>
                 ws = \<lparr>token = None, teamId = None, description = None\<rparr>) \<and>
           (\<exists>cfg'. loadConfig JSON_parse
                      (env\<lparr>arg_clickupApiKey := a1, env_CLICKUP_API_KEY := a2,
                           arg_clickupTeamId := t1, env_CLICKUP_TEAM_ID := t2\<rparr>) = Inr cfg' \<and>
                    clickupWorkspaces cfg' = Some w \<and>
                    getWorkspaceConfig cfg' sel = getWorkspaceConfig cfg sel)"
proof -
  let ?env' = "env\<lparr>arg_clickupApiKey := a1, env_CLICKUP_API_KEY := a2,
                    arg_clickupTeamId := t1, env_CLICKUP_TEAM_ID := t2\<rparr>"
  from assms(1) have c: "configuration JSON_parse env = Inr cfg" and v: "validate cfg = None"
    by (auto simp: loadConfig_def split: sum.splits option.splits)
  from c have p: "parseWorkspaces JSON_parse env = Inr (clickupWorkspaces cfg)"
    by (rule configuration_workspaces)
  with assms(2) obtain w where w: "clickupWorkspaces cfg = Some w"
    using parseWorkspaces_present by blast
  from p obtain cfg' where c': "configuration JSON_parse ?env' = Inr cfg'"
    and w': "clickupWorkspaces cfg' = clickupWorkspaces cfg"
    by (simp add: configuration_def parseWorkspaces_legacy_irrelevant)
  from w w' v have "validate cfg' = None" by (simp add: validate_multi[of cfg w cfg'])
  with c' have l': "loadConfig JSON_parse ?env' = Inr cfg'" by (simp add: loadConfig_def)
  have g: "getWorkspaceConfig cfg' sel = getWorkspaceConfig cfg sel"
    using w w' by (simp add: getWorkspaceConfig_multi[of cfg w cfg'])
  have m: "\<forall>ws. getWorkspaceConfig cfg sel = Inr ws \<longrightarrow>
                 ws \<in> snd ` set (workspaces w) \<or>
                 ws = \<lparr>token = None, teamId = None, description = None\<rparr>"
    using getWorkspaceConfig_from_map[OF w] by blast
  from w w' l' g m show ?thesis by auto
qed

theorem workspaces_blob_takes_precedence_witness:
  "loadConfig example_JSON_parse example_env = Inr example_config \<and>
   truthy (js_or (arg_clickupWorkspaces example_env) (env_CLICKUP_WORKSPACES example_env)) \<and>
   (\<exists>w. clickupWorkspaces example_config = Some w \<and>
       (\<forall>ws. getWorkspaceConfig example_config None = Inr ws \<longrightarrow>
             ws \<in> snd ` set (workspaces w) \<or>
             ws = \<lparr>token = None, teamId = None, description = None\<rparr>) \<and>
       (\<exists>cfg'. loadConfig example_JSON_parse
                  (example_env\<lparr>arg_clickupApiKey := None, env_CLICKUP_API_KEY := None,
                     arg_clickupTeamId := None, env_CLICKUP_TEAM_ID := None\<rparr>) = Inr cfg' \<and>
                clickupWorkspaces cfg' = Some w \<and>
                getWorkspaceConfig cfg' None = getWorkspaceConfig example_config None)) \<and>
   getWorkspaceConfig example_config None
     = Inr \<lparr>token = Some ''pk_1'', teamId = Some ''9001'', description = None\<rparr>"
proof -
  have h1: "loadConfig example_JSON_parse example_env = Inr example_config"
    by (rule load_example)
  have h2: "truthy (js_or (arg_clickupWorkspaces example_env)
                          (env_CLICKUP_WORKSPACES example_env))"
    by (simp add: example_env_def js_or_def truthy_def example_json_def)
  have g: "getWorkspaceConfig example_config None
     = Inr \<lparr>token = Some ''pk_1'', teamId = Some ''9001'', description = None\<rparr>"
    by (simp add: getWorkspaceConfig_def example_config_def example_workspaces_def
          get_property_def)
  from h1 h2 workspaces_blob_takes_precedence[OF h1 h2, of None None None None None] g
  show ?thesis by (rule conjI[OF _ conjI[OF _ conjI]])
qed

subsection \<open>C5: a default workspace that is not in the map\<close>

text \<open>
  Claim C5 says that a blob whose default key is not a key of its workspaces map fails
  to load. The loader tests \<open>!workspaces[defaultWorkspace]\<close>, and this holds when the
  default key is neither an own key of the map nor the name of a member of
  \<open>Object.prototype\<close>:
\<close>

lemma default_absent_fails:
  assumes "truthy (js_or (arg_clickupWorkspaces env) (env_CLICKUP_WORKSPACES env))"
      and "JSON_parse (or_empty (js_or (arg_clickupWorkspaces env) (env_CLICKUP_WORKSPACES env)))
             = Inr \<lparr>blob_default = Some d, blob_workspaces = Some wss\<rparr>"
      and "d \<notin> fst ` set wss" and "d \<notin> set Object_prototype_keys"
  shows "\<exists>m. loadConfig JSON_parse env = Inl (Error m)"
proof -
  from assms(1) obtain t
    where t: "js_or (arg_clickupWorkspaces env) (env_CLICKUP_WORKSPACES env) = Some t"
      and ne: "t \<noteq> []"
    by (auto simp: truthy_def split: option.splits)
  from assms(3) have np: "map_of wss d = None" by (simp add: map_of_eq_None_iff)
  from t assms(2) have parse: "JSON_parse t = Inr \<lparr>blob_default = Some d, blob_workspaces = Some wss\<rparr>"
    by (simp add: or_empty_def)
  show ?thesis
  proof (cases "d = []")
    case True
    with t ne parse show ?thesis
      by (simp add: loadConfig_def configuration_def parseWorkspaces_def parseWorkspaces_try_def)
  next
    case False
    show ?thesis
    proof (cases "check_workspaces wss")
      case (Some e)
      with t ne parse False show ?thesis
        by (simp add: loadConfig_def configuration_def parseWorkspaces_def parseWorkspaces_try_def)
    next
      case None
      with t ne parse assms(4) False np show ?thesis
        by (simp add: loadConfig_def configuration_def parseWorkspaces_def
              parseWorkspaces_try_def validate_def get_property_def)
    qed
  qed
qed

text \<open>
  Claim C5 at the blob
  \<open>{"default":"constructor","workspaces":{"main":{"token":"pk_1","teamId":"9001"}}}\<close>:
  the default key is not a key of the map, but \<open>workspaces["constructor"]\<close> reads
  \<open>Object.prototype.constructor\<close>, which is truthy, so the load succeeds. The lookup of
  the default workspace then returns a value without token and team id.
\<close>

theorem inherited_default_passes_load:
  "loadConfig example_JSON_parse inherited_env = Inr inherited_config \<and>
   getDefaultWorkspace inherited_config = ''constructor'' \<and>
   getAvailableWorkspaces inherited_config = [''main''] \<and>
   getWorkspaceConfig inherited_config None
     = Inr \<lparr>token = None, teamId = None, description = None\<rparr>"
proof -
  have parse: "parseWorkspaces example_JSON_parse inherited_env
                 = Inr (clickupWorkspaces inherited_config)"
    by (simp add: parseWorkspaces_def parseWorkspaces_try_def example_JSON_parse_def
          inherited_env_def inherited_config_def js_or_def truthy_def
          inherited_json_def example_json_def)
  have conf: "configuration example_JSON_parse inherited_env = Inr inherited_config"
    by (simp add: configuration_def parse)
       (simp add: inherited_env_def inherited_config_def js_or_def truthy_def or_empty_def
          parseToolList_def)
  have inherited: "get_property (workspaces (the (clickupWorkspaces inherited_config)))
                     ''constructor'' = InheritedProperty"
    by (simp add: inherited_config_def get_property_def Object_prototype_keys_def)
  have valid: "validate inherited_config = None"
    using inherited by (simp add: validate_def inherited_config_def)
  have load: "loadConfig example_JSON_parse inherited_env = Inr inherited_config"
    by (simp add: loadConfig_def conf valid)
  have dflt: "getDefaultWorkspace inherited_config = ''constructor''"
    by (simp add: getDefaultWorkspace_def inherited_config_def)
  have keys: "getAvailableWorkspaces inherited_config = [''main'']"
    by (simp add: getAvailableWorkspaces_def inherited_config_def)
  have look: "getWorkspaceConfig inherited_config None
                = Inr \<lparr>token = None, teamId = None, description = None\<rparr>"
    using inherited by (simp add: getWorkspaceConfig_def inherited_config_def)
  from load dflt keys look show ?thesis by simp
qed

subsection \<open>C6: the effective set of tools\<close>

text \<open>
  Claim C6. For every catalog and every pair of lists: when the enabled list is
  non-empty the effective set is the intersection of the catalog with the enabled list
  (the disabled list plays no part, names outside the catalog are dropped); when it is
  empty the effective set is the catalog minus the disabled list; and when both lists
  are empty the result is the catalog itself.
\<close>

theorem effective_set_precedence:
  "(enabledList \<noteq> [] \<longrightarrow>
      set (effectiveSet catalog enabledList disabledList) = set catalog \<inter> set enabledList) \<and>
   (enabledList = [] \<longrightarrow>
      set (effectiveSet catalog enabledList disabledList) = set catalog - set disabledList) \<and>
   (enabledList = [] \<and> disabledList = [] \<longrightarrow>
      effectiveSet catalog enabledList disabledList = catalog)"
proof (cases "enabledList = []")
  case False
  then have "effectiveSet catalog enabledList disabledList
               = filter (\<lambda>t. t \<in> set enabledList) catalog"
    by (simp add: effectiveSet_def)
  then have "set (effectiveSet catalog enabledList disabledList)
               = set catalog \<inter> set enabledList"
    by auto
  with False show ?thesis by simp
next
  case True
  note enabled_empty = this
  show ?thesis
  proof (cases "disabledList = []")
    case True
    with enabled_empty show ?thesis by (simp add: effectiveSet_def)
  next
    case False
    with enabled_empty have "effectiveSet catalog enabledList disabledList
               = filter (\<lambda>t. t \<notin> set disabledList) catalog"
      by (simp add: effectiveSet_def)
    then have "set (effectiveSet catalog enabledList disabledList)
               = set catalog - set disabledList"
      by auto
    with enabled_empty False show ?thesis by simp
  qed
qed

theorem effective_set_precedence_witness:
  "set (effectiveSet [''A'', ''B'', ''C'', ''D''] [''A'', ''C'', ''X''] [''B'']) = {''A'', ''C''} \<and>
   set (effectiveSet [''A'', ''B'', ''C'', ''D''] [] [''B'', ''D'']) = {''A'', ''C''} \<and>
   effectiveSet [''A'', ''B'', ''C'', ''D''] [] [] = [''A'', ''B'', ''C'', ''D'']"
proof -
  have a: "set (effectiveSet [''A'', ''B'', ''C'', ''D''] [''A'', ''C'', ''X''] [''B''])
             = set [''A'', ''B'', ''C'', ''D''] \<inter> set [''A'', ''C'', ''X'']"
    using effective_set_precedence[of "[''A'', ''C'', ''X'']" "[''A'', ''B'', ''C'', ''D'']" "[''B'']"]
    by simp
  have b: "set (effectiveSet [''A'', ''B'', ''C'', ''D''] [] [''B'', ''D''])
             = set [''A'', ''B'', ''C'', ''D''] - set [''B'', ''D'']"
    using effective_set_precedence[of "[]" "[''A'', ''B'', ''C'', ''D'']" "[''B'', ''D'']"]
    by simp
  have c: "effectiveSet [''A'', ''B'', ''C'', ''D''] [] [] = [''A'', ''B'', ''C'', ''D'']"
    using effective_set_precedence[of "[]" "[''A'', ''B'', ''C'', ''D'']" "[]"]
    by simp
  have a': "set [''A'', ''B'', ''C'', ''D''] \<inter> set [''A'', ''C'', ''X''] = {''A'', ''C''}"
    by auto
  have b': "set [''A'', ''B'', ''C'', ''D''] - set [''B'', ''D''] = {''A'', ''C''}"
    by auto
  from a b c a' b' show ?thesis by simp
qed

subsection \<open>C7: the error response\<close>




subsection \<open>C8: the success response\<close>

text \<open>
  Claim C8, as the code has it. For every payload \<open>createResponse\<close> returns one part of
  type \<open>text\<close>. Its text is the payload's \<open>hierarchy\<close> when the payload is an object with
  a string-valued property \<open>hierarchy\<close>; the payload itself when the payload is a
  string; and \<open>JSON.stringify\<close> of the payload, with an indentation of two, in every
  other case, where the text, if there is one, is a JSON text that denotes the payload
  (as far as JSON keeps it).
\<close>

theorem response_text_by_payload_kind:
  "\<exists>t. createResponse p = \<lparr>content = [\<lparr>part_type = ''text'', part_text = t\<rparr>]\<rparr> \<and>
        (\<forall>h. own_property p ''hierarchy'' = Some (Str h) \<longrightarrow> t = Some h) \<and>
        (\<forall>s. p = Str s \<longrightarrow> t = Some s) \<and>
        ((\<forall>h. own_property p ''hierarchy'' \<noteq> Some (Str h)) \<and> (\<forall>s. p \<noteq> Str s)
           \<longrightarrow> t = JSON_stringify p \<and> (\<forall>u. t = Some u \<longrightarrow> json_text u (json_image p)))"
proof -
  have branches:
    "\<exists>t. createResponse p = \<lparr>content = [\<lparr>part_type = ''text'', part_text = t\<rparr>]\<rparr> \<and>
        (\<forall>h. own_property p ''hierarchy'' = Some (Str h) \<longrightarrow> t = Some h) \<and>
        (\<forall>s. p = Str s \<longrightarrow> t = Some s) \<and>
        ((\<forall>h. own_property p ''hierarchy'' \<noteq> Some (Str h)) \<and> (\<forall>s. p \<noteq> Str s)
           \<longrightarrow> t = JSON_stringify p)"
  proof (cases p)
    case (Obj kvs)
    show ?thesis
    proof (cases "\<exists>h. map_of kvs ''hierarchy'' = Some (Str h)")
      case True
      then obtain h where "map_of kvs ''hierarchy'' = Some (Str h)" by blast
      with Obj show ?thesis
        by (simp add: createResponse_def typeof_def js_truthy_def get_member_def)
    next
      case False
      then have "\<forall>h. map_of kvs ''hierarchy'' \<noteq> Some (Str h)" by simp
      from createResponse_plain_object[OF this] Obj False show ?thesis by simp
    qed
  qed (simp_all add: createResponse_def typeof_def js_truthy_def)
  then obtain t
    where r: "createResponse p = \<lparr>content = [\<lparr>part_type = ''text'', part_text = t\<rparr>]\<rparr>"
      and h: "\<forall>h. own_property p ''hierarchy'' = Some (Str h) \<longrightarrow> t = Some h"
      and s: "\<forall>s. p = Str s \<longrightarrow> t = Some s"
      and j: "(\<forall>h. own_property p ''hierarchy'' \<noteq> Some (Str h)) \<and> (\<forall>s. p \<noteq> Str s)
                \<longrightarrow> t = JSON_stringify p"
    by blast
  have d: "(\<forall>h. own_property p ''hierarchy'' \<noteq> Some (Str h)) \<and> (\<forall>s. p \<noteq> Str s)
             \<longrightarrow> t = JSON_stringify p \<and> (\<forall>u. t = Some u \<longrightarrow> json_text u (json_image p))"
    using j JSON_stringify_denotes[of p] by simp
  show ?thesis
    using r h s d by (intro exI[of _ t] conjI) assumption+
qed

theorem response_text_by_payload_kind_witness:
  "createResponse (Obj [(''id'', Num 7), (''tags'', Arr [Str ''a'', Null])])
     = \<lparr>content = [\<lparr>part_type = ''text'',
          part_text = Some ''{\<newline>  \"id\": 7,\<newline>  \"tags\": [\<newline>    \"a\",\<newline>    null\<newline>  ]\<newline>}''\<rparr>]\<rparr> \<and>
   json_text ''{\<newline>  \"id\": 7,\<newline>  \"tags\": [\<newline>    \"a\",\<newline>    null\<newline>  ]\<newline>}''
     (Obj [(''id'', Num 7), (''tags'', Arr [Str ''a'', Null])]) \<and>
   createResponse (Str ''Done'')
     = \<lparr>content = [\<lparr>part_type = ''text'', part_text = Some ''Done''\<rparr>]\<rparr>"
proof -
  let ?p = "Obj [(''id'', Num 7), (''tags'', Arr [Str ''a'', Null])]"
  let ?text = "''{\<newline>  \"id\": 7,\<newline>  \"tags\": [\<newline>    \"a\",\<newline>    null\<newline>  ]\<newline>}''"
  have e: "JSON_stringify ?p = Some ?text"
    by (simp add: JSON_stringify_def quote_def escape_char_def number_text_def
          nat_digits.simps digit_char_def)
  have i: "json_image ?p = ?p" by simp
  from response_text_by_payload_kind[of ?p] obtain t
    where c: "createResponse ?p = \<lparr>content = [\<lparr>part_type = ''text'', part_text = t\<rparr>]\<rparr>"
      and j: "(\<forall>h. own_property ?p ''hierarchy'' \<noteq> Some (Str h)) \<and> (\<forall>s. ?p \<noteq> Str s)
                \<longrightarrow> t = JSON_stringify ?p \<and> (\<forall>u. t = Some u \<longrightarrow> json_text u (json_image ?p))"
    by blast
  from j have t: "t = JSON_stringify ?p"
    and d: "\<forall>u. t = Some u \<longrightarrow> json_text u (json_image ?p)"
    by simp_all
  from t e have t': "t = Some ?text" by simp
  with c have a: "createResponse ?p
                    = \<lparr>content = [\<lparr>part_type = ''text'', part_text = Some ?text\<rparr>]\<rparr>"
    by simp
  from d t' have "json_text ?text (json_image ?p)" by blast
  then have b: "json_text ?text ?p" unfolding i .
  from response_text_by_payload_kind[of "Str ''Done''"] obtain t'
    where "createResponse (Str ''Done'')
             = \<lparr>content = [\<lparr>part_type = ''text'', part_text = t'\<rparr>]\<rparr>"
      and "\<forall>s. Str ''Done'' = Str s \<longrightarrow> t' = Some s"
    by blast
  then have c': "createResponse (Str ''Done'')
     = \<lparr>content = [\<lparr>part_type = ''text'', part_text = Some ''Done''\<rparr>]\<rparr>"
    by simp
  from a b c' show ?thesis by (intro conjI) assumption+
qed

text \<open>
  The claim as stated fails for an object with a string-valued \<open>hierarchy\<close>: the
  payload is not a string, and the text is not its serialization.
\<close>

theorem response_hierarchy_payload:
  "typeof (Obj [(''hierarchy'', Str ''tree''), (''count'', Num 2)]) = ''object'' \<and>
   createResponse (Obj [(''hierarchy'', Str ''tree''), (''count'', Num 2)])
     = \<lparr>content = [\<lparr>part_type = ''text'', part_text = Some ''tree''\<rparr>]\<rparr> \<and>
   JSON_stringify (Obj [(''hierarchy'', Str ''tree''), (''count'', Num 2)])
     = Some ''{\<newline>  \"hierarchy\": \"tree\",\<newline>  \"count\": 2\<newline>}'' \<and>
   Some ''tree'' \<noteq> JSON_stringify (Obj [(''hierarchy'', Str ''tree''), (''count'', Num 2)]) \<and>
   \<not> json_text ''tree'' (Obj [(''hierarchy'', Str ''tree''), (''count'', Num 2)])"
proof -
  let ?p = "Obj [(''hierarchy'', Str ''tree''), (''count'', Num 2)]"
  have k: "typeof ?p = ''object''" by (simp add: typeof_def)
  have r: "createResponse ?p
             = \<lparr>content = [\<lparr>part_type = ''text'', part_text = Some ''tree''\<rparr>]\<rparr>"
    by (simp add: createResponse_def js_truthy_def typeof_def get_member_def)
  have j: "JSON_stringify ?p
             = Some ''{\<newline>  \"hierarchy\": \"tree\",\<newline>  \"count\": 2\<newline>}''"
    by (simp add: JSON_stringify_def quote_def escape_char_def number_text_def
          nat_digits.simps digit_char_def)
  have d: "Some ''tree'' \<noteq> JSON_stringify ?p" unfolding j by simp
  have n: "\<not> json_text ''tree'' ?p" by (rule tree_is_no_object)
  from k r j d n show ?thesis by (intro conjI) assumption+
qed

subsection \<open>C9: the empty selector\<close>



subsection \<open>C10: the default bundle is constructed when the module is loaded\<close>

text \<open>
  Claim C10. For every loaded configuration the module's initialisation
  \<open>clickUpServices = getClickUpServices()\<close> returns: it constructs the bundle of the
  default workspace from the credentials \<open>getWorkspaceConfig()\<close> gives and stores it
  under the default key, as the only entry of the map. Whatever calls follow, the map
  keeps that entry.
\<close>

theorem default_bundle_eager:
  assumes "loadConfig JSON_parse env = Inr cfg"
  shows "\<exists>s0 ws. shared_module_init cfg = (Inr 0, s0) \<and>
           getWorkspaceConfig cfg None = Inr ws \<and>
           workspaceServicesMap s0 = [(getDefaultWorkspace cfg, 0)] \<and>
           bundles s0 = [\<lparr>bound_apiKey = token ws, bound_teamId = teamId ws\<rparr>] \<and>
           map_of (workspaceServicesMap (run_calls cfg sels s0)) (getDefaultWorkspace cfg) = Some 0"
proof -
  have v: "valid_config cfg" using assms(1) by (rule loadConfig_valid)
  from default_resolves[OF v] obtain ws
    where ws: "getWorkspaceConfig cfg (Some (getDefaultWorkspace cfg)) = Inr ws"
    by (auto simp: resolves_def)
  have e: "getWorkspaceConfig cfg None = getWorkspaceConfig cfg (Some (getDefaultWorkspace cfg))"
    by (simp add: getWorkspaceConfig_def getDefaultWorkspace_def truthy_def split: option.splits)
  let ?s0 = "\<lparr>workspaceServicesMap = [(getDefaultWorkspace cfg, 0)],
              bundles = [\<lparr>bound_apiKey = token ws, bound_teamId = teamId ws\<rparr>],
              info_log = [''Creating ClickUp services for workspace: '' @ getDefaultWorkspace cfg,
                ''Services initialization complete for workspace: '' @ getDefaultWorkspace cfg]\<rparr>"
  have init: "shared_module_init cfg = (Inr 0, ?s0)"
    using ws getClickUpServices_miss[of initial_registry None cfg ws]
    by (simp add: shared_module_init_def initial_registry_def)
  have "map_of (workspaceServicesMap (run_calls cfg sels ?s0)) (getDefaultWorkspace cfg) = Some 0"
    by (rule cached_stays_run) simp
  with init ws e show ?thesis by simp
qed

theorem default_bundle_eager_witness:
  "loadConfig example_JSON_parse example_env = Inr example_config \<and>
   (\<exists>s0 ws. shared_module_init example_config = (Inr 0, s0) \<and>
      getWorkspaceConfig example_config None = Inr ws \<and>
      workspaceServicesMap s0 = [(getDefaultWorkspace example_config, 0)] \<and>
      bundles s0 = [\<lparr>bound_apiKey = token ws, bound_teamId = teamId ws\<rparr>] \<and>
      map_of (workspaceServicesMap (run_calls example_config [Some ''client'', Some ''x''] s0))
        (getDefaultWorkspace example_config) = Some 0)"
proof -
  have h1: "loadConfig example_JSON_parse example_env = Inr example_config"
    by (rule load_example)
  from h1 default_bundle_eager[OF h1, of "[Some ''client'', Some ''x'']"]
  show ?thesis by (rule conjI)
qed

end
